theory Spec2Isabelle
  imports Complex_Main
begin

section \<open>JavaScript values of a parsed request body\<close>

text \<open>
  \<^verbatim>\<open>req.body\<close> is the value \<^verbatim>\<open>express.json()\<close> parsed from the request. An object is
  kept as the list of its own properties, each name once, in the order \<^verbatim>\<open>Object.keys\<close>
  reports them. A
  number is the double the literal parsed to: a finite value other than minus zero, minus
  zero (the literal \<^verbatim>\<open>-0\<close>), or an infinity (a literal beyond the range of a double, such
  as \<^verbatim>\<open>1e400\<close>); NaN never comes out of a JSON text. \<open>JUndefined\<close> never occurs inside a
  parsed body: it is what reading an absent property gives. The limits of the machine
  (the size the parser accepts, the depth of the call stack) are not part of the model.
\<close>

datatype number = Finite rat | MinusZero | PlusInfinity | MinusInfinity

datatype jsval =
    JUndefined
  | JNull
  | JBool bool
  | JNum number
  | JStr string
  | JArr "jsval list"
  | JObj "(string \<times> jsval) list"

datatype exn =
    TypeError
  | BindError
  | SQLITE_CONSTRAINT_PRIMARYKEY
  | SQLITE_CONSTRAINT_FOREIGNKEY
  | SQLITE_ERROR

text \<open>ToBoolean, as \<^verbatim>\<open>!x\<close>, \<^verbatim>\<open>x || y\<close>, \<^verbatim>\<open>x && y\<close> and \<^verbatim>\<open>if (x)\<close> apply it.\<close>

fun truthy :: "jsval \<Rightarrow> bool" where
  "truthy JUndefined = False"
| "truthy JNull = False"
| "truthy (JBool b) = b"
| "truthy (JNum n) = (n \<noteq> Finite 0 \<and> n \<noteq> MinusZero)"
| "truthy (JStr s) = (s \<noteq> [])"
| "truthy (JArr xs) = True"
| "truthy (JObj kvs) = True"

text \<open>
  Whether ToString throws, as the template literal \<^verbatim>\<open>`${projectName}`\<close> of the two
  \<^verbatim>\<open>console.log\<close> calls applies it. An object of a parsed body is converted by
  \<^verbatim>\<open>Object.prototype.toString\<close> unless it has an own property \<^verbatim>\<open>toString\<close>: that
  property is never callable, the inherited \<^verbatim>\<open>valueOf\<close> returns the object itself, and
  the conversion throws a TypeError. An array is joined: null and undefined elements
  give the empty string, every other element is converted in turn.
\<close>

fun toString_throws :: "jsval \<Rightarrow> bool" where
  "toString_throws (JObj kvs) = (''toString'' \<in> set (map fst kvs))"
| "toString_throws (JArr xs) =
     list_ex (\<lambda>x. x \<noteq> JNull \<and> x \<noteq> JUndefined \<and> toString_throws x) xs"
| "toString_throws v = False"

text \<open>
  The document that the text \<^verbatim>\<open>JSON.stringify(v)\<close> denotes. The text gives every finite
  number back, writes \<^verbatim>\<open>0\<close> for minus zero and \<^verbatim>\<open>null\<close> for an infinity, writes
  \<^verbatim>\<open>null\<close> for an undefined element of an array and leaves an undefined property out.
\<close>

fun stringify :: "jsval \<Rightarrow> jsval" where
  "stringify (JNum n) =
     (case n of
        Finite q \<Rightarrow> JNum (Finite q)
      | MinusZero \<Rightarrow> JNum (Finite 0)
      | PlusInfinity \<Rightarrow> JNull
      | MinusInfinity \<Rightarrow> JNull)"
| "stringify (JArr xs) = JArr (map (\<lambda>x. if x = JUndefined then JNull else stringify x) xs)"
| "stringify (JObj kvs) =
     JObj (map (\<lambda>kv. (fst kv, stringify (snd kv))) (filter (\<lambda>kv. snd kv \<noteq> JUndefined) kvs))"
| "stringify v = v"

text \<open>Whether a document holds only numbers that \<^verbatim>\<open>JSON.stringify\<close> gives back.\<close>

fun plain :: "jsval \<Rightarrow> bool" where
  "plain JUndefined = False"
| "plain (JNum n) = (case n of Finite q \<Rightarrow> True | _ \<Rightarrow> False)"
| "plain (JArr xs) = list_all plain xs"
| "plain (JObj kvs) = list_all (\<lambda>kv. plain (snd kv)) kvs"
| "plain v = True"

text \<open>The decimal name of an array index.\<close>

fun show_nat :: "nat \<Rightarrow> string" where
  "show_nat n =
     (if n < 10 then [char_of (48 + n)]
      else show_nat (n div 10) @ [char_of (48 + n mod 10)])"

declare show_nat.simps [simp del]

text \<open>
  The own enumerable properties of a value, in \<^verbatim>\<open>Object.keys\<close> order: the properties of an
  object, the elements of an array under their indices. The index properties of a string
  are left out: \<^verbatim>\<open>express.json()\<close> in its default strict mode yields an object or an
  array, and of the content the handler reads only the names \<^verbatim>\<open>project\<close>, \<^verbatim>\<open>quiz\<close>,
  \<^verbatim>\<open>questions\<close> and \<^verbatim>\<open>logic\<close>.
\<close>

fun entries :: "jsval \<Rightarrow> (string \<times> jsval) list" where
  "entries (JObj kvs) = kvs"
| "entries (JArr xs) = zip (map show_nat [0..<length xs]) xs"
| "entries v = []"

text \<open>\<^verbatim>\<open>Object.keys(v)\<close>: a TypeError on null and undefined.\<close>

definition object_keys :: "jsval \<Rightarrow> exn + string list" where
  "object_keys v =
     (if v = JNull \<or> v = JUndefined then Inl TypeError else Inr (map fst (entries v)))"

text \<open>
  A property read \<^verbatim>\<open>v[name]\<close> or \<^verbatim>\<open>v.name\<close>: a TypeError on null and undefined, the own
  property when there is one, \<^verbatim>\<open>undefined\<close> otherwise. The handler reads the first key
  of the body, which is an own property, and the four names above, which no built-in
  prototype defines and which are not the \<^verbatim>\<open>length\<close> of an array or a string: for these
  reads the enumerable own properties decide.
\<close>

definition get :: "jsval \<Rightarrow> string \<Rightarrow> exn + jsval" where
  "get v name =
     (if v = JNull \<or> v = JUndefined then Inl TypeError
      else Inr (case map_of (entries v) name of None \<Rightarrow> JUndefined | Some x \<Rightarrow> x))"

section \<open>The store\<close>

text \<open>
  The two tables of \<^verbatim>\<open>server.js\<close>, each a list of rows. A \<^verbatim>\<open>project_name\<close> column holds
  NULL (\<open>None\<close>) or a TEXT key of type \<open>'k\<close>: the schema declares the primary key of
  \<^verbatim>\<open>definitions\<close> without NOT NULL, and SQLite then admits NULL in it. The payload column
  holds the text \<^verbatim>\<open>JSON.stringify(body)\<close>, kept here as the document that text denotes.
  The journal is no table of the source: it is the record of the prepared statements run
  so far, most recent first, by which a statement about what a request ran can be made.
\<close>

datatype stmt = UpsertDefinition | SelectDefinition | InsertSubmission

record 'k definition_row =
  def_project_name :: "'k option"
  def_payload :: jsval

record 'k submission_row =
  sub_id :: string
  sub_project_name :: "'k option"
  sub_timestamp :: nat
  sub_payload :: jsval

record 'k db =
  definitions :: "'k definition_row list"
  submissions :: "'k submission_row list"
  journal :: "stmt list"

text \<open>
  Modelled from the spec: the storage driver and the engine behind \<^verbatim>\<open>db.prepare\<close>
  (better-sqlite3, SQLite) are not part of the repository. What the engine contributes
  to a request is taken as a parameter: \<open>textkey\<close> is the TEXT it stores in a
  \<^verbatim>\<open>project_name\<close> column for a bound string or number, \<open>fails\<close> tells which statement
  meets an unexpected engine error (a full disk, a locked file), \<open>foreign_keys\<close> whether
  it enforces the FOREIGN KEY clause of \<^verbatim>\<open>submissions\<close>, and \<open>now\<close> is
  CURRENT_TIMESTAMP.
\<close>

record 'k env =
  textkey :: "jsval \<Rightarrow> 'k"
  fails :: "stmt \<Rightarrow> bool"
  foreign_keys :: bool
  now :: nat

text \<open>
  Modelled from the spec: the driver is missing from the repository, and the
  specification says only that a project name keys the store. How the driver binds the
  JavaScript value passed as project name to the one \<^verbatim>\<open>?\<close> of the column is written
  after the driver's own documentation. A string and a number are bound as they are,
  null as NULL. An array argument is spread into
  positional parameters, so an array of one such value is bound as that value, and every
  other array gives the statement too few or too many values. A boolean cannot be bound,
  and an object is taken for a map of named parameters, of which the statements have
  none: for these \<^verbatim>\<open>run\<close> and \<^verbatim>\<open>get\<close> throw.
\<close>

datatype 'k bound = Refused | Bound "'k option"

definition bind_value :: "'k env \<Rightarrow> jsval \<Rightarrow> 'k bound" where
  "bind_value e v =
     (case v of
        JStr s \<Rightarrow> Bound (Some (textkey e v))
      | JNum n \<Rightarrow> Bound (Some (textkey e v))
      | JNull \<Rightarrow> Bound None
      | JUndefined \<Rightarrow> Bound None
      | _ \<Rightarrow> Refused)"

definition bind :: "'k env \<Rightarrow> jsval \<Rightarrow> 'k bound" where
  "bind e v =
     (case v of
        JArr xs \<Rightarrow> (if length xs = 1 then bind_value e (xs ! 0) else Refused)
      | JObj kvs \<Rightarrow> Refused
      | _ \<Rightarrow> bind_value e v)"

text \<open>
  The three prepared statements of the handler follow, under the names the specification
  gives the operations of the store. Each is entered in the journal when it is run; a
  statement that throws leaves the tables as they were.
\<close>

definition is_write :: "stmt \<Rightarrow> bool" where
  "is_write s = (s = UpsertDefinition \<or> s = InsertSubmission)"

definition logged :: "stmt \<Rightarrow> 'k db \<Rightarrow> 'k db" where
  "logged s d = d\<lparr>journal := s # journal d\<rparr>"

text \<open>A comparison with NULL is never true: no row is found for a NULL key.\<close>

definition definitionExists :: "'k db \<Rightarrow> 'k option \<Rightarrow> bool" where
  "definitionExists d key =
     (key \<noteq> None \<and> key \<in> set (map def_project_name (definitions d)))"

text \<open>
  The table after \<^verbatim>\<open>INSERT OR REPLACE\<close>: the row that holds the same primary key is
  deleted and the new row is inserted. No row holds the same key as NULL, so a row of
  key NULL is added to whatever is there.
\<close>

definition replaceDefinition ::
  "'k option \<Rightarrow> jsval \<Rightarrow> 'k definition_row list \<Rightarrow> 'k definition_row list" where
  "replaceDefinition key payload rows =
     (case key of
        None \<Rightarrow> rows
      | Some k \<Rightarrow> filter (\<lambda>r. def_project_name r \<noteq> Some k) rows)
     @ [\<lparr>def_project_name = key, def_payload = payload\<rparr>]"

text \<open>\<^verbatim>\<open>INSERT OR REPLACE INTO definitions (project_name, payload) VALUES (?, ?)\<close>\<close>

definition upsertDefinition :: "'k env \<Rightarrow> jsval \<Rightarrow> jsval \<Rightarrow> 'k db \<Rightarrow> (exn + unit) \<times> 'k db" where
  "upsertDefinition e projectName body d =
     (case bind e projectName of
        Refused \<Rightarrow> (Inl BindError, logged UpsertDefinition d)
      | Bound key \<Rightarrow>
          if fails e UpsertDefinition then (Inl SQLITE_ERROR, logged UpsertDefinition d)
          else (Inr (),
                logged UpsertDefinition
                  (d\<lparr>definitions := replaceDefinition key (stringify body) (definitions d)\<rparr>)))"

text \<open>\<^verbatim>\<open>SELECT 1 FROM definitions WHERE project_name = ?\<close>, whether \<^verbatim>\<open>get\<close> found a row.\<close>

definition selectDefinition :: "'k env \<Rightarrow> jsval \<Rightarrow> 'k db \<Rightarrow> (exn + bool) \<times> 'k db" where
  "selectDefinition e projectName d =
     (case bind e projectName of
        Refused \<Rightarrow> (Inl BindError, logged SelectDefinition d)
      | Bound key \<Rightarrow>
          if fails e SelectDefinition then (Inl SQLITE_ERROR, logged SelectDefinition d)
          else (Inr (definitionExists d key), logged SelectDefinition d))"

text \<open>
  \<^verbatim>\<open>INSERT INTO submissions (id, project_name, payload) VALUES (?, ?, ?)\<close>: refused
  when the id is taken, and, where foreign keys are enforced, when the project name is
  not NULL and has no definition; the timestamp column takes its default.
\<close>

definition insertSubmission :: "'k env \<Rightarrow> string \<Rightarrow> jsval \<Rightarrow> jsval \<Rightarrow> 'k db \<Rightarrow> (exn + unit) \<times> 'k db" where
  "insertSubmission e uniqueID projectName body d =
     (case bind e projectName of
        Refused \<Rightarrow> (Inl BindError, logged InsertSubmission d)
      | Bound key \<Rightarrow>
          if fails e InsertSubmission then (Inl SQLITE_ERROR, logged InsertSubmission d)
          else if uniqueID \<in> set (map sub_id (submissions d))
            then (Inl SQLITE_CONSTRAINT_PRIMARYKEY, logged InsertSubmission d)
          else if foreign_keys e \<and> key \<noteq> None \<and> \<not> definitionExists d key
            then (Inl SQLITE_CONSTRAINT_FOREIGNKEY, logged InsertSubmission d)
          else (Inr (),
                logged InsertSubmission
                  (d\<lparr>submissions :=
                       submissions d
                       @ [\<lparr>sub_id = uniqueID, sub_project_name = key,
                           sub_timestamp = now e, sub_payload = stringify body\<rparr>]\<rparr>)))"

section \<open>The upload handler\<close>

record response =
  status :: nat
  sent :: string

definition send :: "nat \<Rightarrow> string \<Rightarrow> response" where
  "send code text = \<lparr>status = code, sent = text\<rparr>"

text \<open>\<^verbatim>\<open>content.project || (content.quiz && content.quiz.project)\<close>\<close>

definition projectName :: "jsval \<Rightarrow> exn + jsval" where
  "projectName content =
     (case get content ''project'' of
        Inl x \<Rightarrow> Inl x
      | Inr p \<Rightarrow>
          if truthy p then Inr p
          else (case get content ''quiz'' of
                  Inl x \<Rightarrow> Inl x
                | Inr q \<Rightarrow> if truthy q then get q ''project'' else Inr q))"

text \<open>\<^verbatim>\<open>content.questions || content.logic\<close>\<close>

definition questionsOrLogic :: "jsval \<Rightarrow> exn + jsval" where
  "questionsOrLogic content =
     (case get content ''questions'' of
        Inl x \<Rightarrow> Inl x
      | Inr a \<Rightarrow> if truthy a then Inr a else get content ''logic'')"

text \<open>
  \<^verbatim>\<open>console.log\<close> with a template literal that holds the project name (lines 97 and
  114): nothing of the line that is printed is kept, but the conversion of the project
  name to a string can throw. The two calls that print the unique ID, a string, and
  \<^verbatim>\<open>console.error\<close> cannot, and are left out.
\<close>

definition log_project :: "jsval \<Rightarrow> exn + unit" where
  "log_project pn = (if toString_throws pn then Inl TypeError else Inr ())"

text \<open>The body of the \<^verbatim>\<open>try\<close> block of \<^verbatim>\<open>router.post('/upload')\<close>.\<close>

definition upload_try :: "'k env \<Rightarrow> jsval \<Rightarrow> 'k db \<Rightarrow> (exn + response) \<times> 'k db" where
  "upload_try e body d =
     (case object_keys body of
        Inl x \<Rightarrow> (Inl x, d)
      | Inr rootKeys \<Rightarrow>
          if length rootKeys = 0 then (Inr (send 400 ''Empty JSON''), d)
          else
            let uniqueID = rootKeys ! 0 in
            (case get body uniqueID of
               Inl x \<Rightarrow> (Inl x, d)
             | Inr content \<Rightarrow>
                 (case projectName content of
                    Inl x \<Rightarrow> (Inl x, d)
                  | Inr pn \<Rightarrow>
                      if \<not> truthy pn
                      then (Inr (send 400 ''Invalid JSON: 'project' field missing.''), d)
                      else
                        (case questionsOrLogic content of
                           Inl x \<Rightarrow> (Inl x, d)
                         | Inr ql \<Rightarrow>
                             if truthy ql then
                               (case log_project pn of
                                  Inl x \<Rightarrow> (Inl x, d)
                                | Inr l \<Rightarrow>
                                    (case upsertDefinition e pn body d of
                                       (Inl x, d') \<Rightarrow> (Inl x, d')
                                     | (Inr u, d') \<Rightarrow> (Inr (send 200 ''Definition Saved''), d')))
                             else
                               (case selectDefinition e pn d of
                                  (Inl x, d') \<Rightarrow> (Inl x, d')
                                | (Inr defCheck, d') \<Rightarrow>
                                    if \<not> defCheck
                                    then
                                      (case log_project pn of
                                         Inl x \<Rightarrow> (Inl x, d')
                                       | Inr l \<Rightarrow>
                                           (Inr (send 412 ''Precondition Failed: Project definition not found''), d'))
                                    else
                                      (case insertSubmission e uniqueID pn body d' of
                                         (Inr u, d'') \<Rightarrow> (Inr (send 200 ''OK''), d'')
                                       | (Inl err, d'') \<Rightarrow>
                                           if err = SQLITE_CONSTRAINT_PRIMARYKEY
                                           then (Inr (send 200 ''Already Saved''), d'')
                                           else (Inl err, d'')))))))"

text \<open>The handler: whatever the \<^verbatim>\<open>try\<close> block throws is answered with 500.\<close>

definition upload :: "'k env \<Rightarrow> jsval \<Rightarrow> 'k db \<Rightarrow> response \<times> 'k db" where
  "upload e body d =
     (case upload_try e body d of
        (Inl x, d') \<Rightarrow> (send 500 ''Internal Server Error'', d')
      | (Inr r, d') \<Rightarrow> (r, d'))"

section \<open>Reading the specification's words\<close>

text \<open>
  The value at \<^verbatim>\<open>content.quiz.project\<close> as the specification speaks of it: the property
  where it can be read, \<^verbatim>\<open>undefined\<close> where \<^verbatim>\<open>content\<close> or \<^verbatim>\<open>content.quiz\<close> is absent or
  null. The handler does not use this function; statements about "absent or falsy" do.
\<close>

definition quizProject :: "jsval \<Rightarrow> jsval" where
  "quizProject content =
     (case get content ''quiz'' of
        Inl x \<Rightarrow> JUndefined
      | Inr q \<Rightarrow> (case get q ''project'' of Inl x \<Rightarrow> JUndefined | Inr v \<Rightarrow> v))"

section \<open>An engine and the documents of the specification's scenario\<close>

text \<open>
  Modelled from the spec: the engine is not in the repository. \<open>env0\<close> is an engine
  that meets no fault and keeps as key the bound string or number itself, so that the
  key of a string is the string; what text the engine writes for a number is not
  interpreted. It serves as the concrete instance at which the theorems are evaluated.
\<close>

definition env0 :: "jsval env" where
  "env0 = \<lparr>textkey = (\<lambda>v. v), fails = (\<lambda>s. False), foreign_keys = True, now = 0\<rparr>"

definition definition_content :: jsval where
  "definition_content = JObj [(''project'', JStr ''Proj''), (''questions'', JArr [JStr ''q1''])]"

definition sample_definition :: jsval where
  "sample_definition = JObj [(''Proj-1'', definition_content)]"

definition submission_content :: jsval where
  "submission_content = JObj [(''project'', JStr ''Proj''), (''answers'', JArr [JNum (Finite 1)])]"

definition sample_submission :: jsval where
  "sample_submission = JObj [(''Sub-1'', submission_content)]"

text \<open>
  Three definition documents whose project name is not a string: the array
  \<^verbatim>\<open>[null]\<close>, the array \<^verbatim>\<open>[""]\<close>, and the string \<^verbatim>\<open>Proj\<close> beside a number that parsed to
  infinity.
\<close>

definition null_project_definition :: jsval where
  "null_project_definition =
     JObj [(''N'', JObj [(''project'', JArr [JNull]), (''questions'', JArr [JStr ''q1''])])]"


definition overflow_definition :: jsval where
  "overflow_definition =
     JObj [(''O'', JObj [(''project'', JStr ''Proj''), (''questions'', JArr [JNum PlusInfinity])])]"

text \<open>The empty store, the store after the definition, and after the first submission.\<close>

definition db0 :: "jsval db" where
  "db0 = \<lparr>definitions = [], submissions = [], journal = []\<rparr>"

definition db1 :: "jsval db" where
  "db1 = \<lparr>definitions =
            [\<lparr>def_project_name = Some (JStr ''Proj''), def_payload = sample_definition\<rparr>],
          submissions = [],
          journal = [UpsertDefinition]\<rparr>"

definition db2 :: "jsval db" where
  "db2 = \<lparr>definitions =
            [\<lparr>def_project_name = Some (JStr ''Proj''), def_payload = sample_definition\<rparr>],
          submissions =
            [\<lparr>sub_id = ''Sub-1'', sub_project_name = Some (JStr ''Proj''),
              sub_timestamp = 0, sub_payload = sample_submission\<rparr>],
          journal = [InsertSubmission, SelectDefinition, UpsertDefinition]\<rparr>"

section \<open>The handler, branch by branch\<close>

lemma tables_logged [simp]:
  "definitions (logged s d) = definitions d"
  "submissions (logged s d) = submissions d"
  "journal (logged s d) = s # journal d"
  by (simp_all add: logged_def)

lemma definitionExists_logged [simp]:
  "definitionExists (logged s d) key = definitionExists d key"
  by (simp add: definitionExists_def)

lemma object_keys_first:
  "entries body = (uid, content) # rest \<Longrightarrow> object_keys body = Inr (uid # map fst rest)"
  by (cases body) (auto simp: object_keys_def)

lemma get_first:
  "entries body = (uid, content) # rest \<Longrightarrow> get body uid = Inr content"
  by (cases body) (auto simp: get_def)

lemma object_keys_cases:
  "object_keys body = Inl TypeError \<or> object_keys body = Inr []
   \<or> (\<exists>uid content rest. entries body = (uid, content) # rest)"
proof (cases "entries body")
  case Nil
  then show ?thesis by (simp add: object_keys_def)
next
  case (Cons a list)
  then show ?thesis by (cases a) simp
qed

text \<open>A project name the driver binds is converted to a string without a throw.\<close>

lemma bind_value_not_throwing:
  "bind_value e v = Bound key \<Longrightarrow> \<not> toString_throws v"
  by (cases v) (simp_all add: bind_value_def)

lemma bind_not_throwing:
  assumes "bind e pn = Bound key"
  shows "\<not> toString_throws pn"
proof (cases pn)
  case (JArr xs)
  with assms have one: "length xs = 1" and v: "bind_value e (xs ! 0) = Bound key"
    by (simp_all add: bind_def split: if_splits)
  from one obtain x where xs: "xs = [x]"
    by (cases xs) auto
  with v have "\<not> toString_throws x"
    by (simp add: bind_value_not_throwing)
  with JArr xs show ?thesis by simp
next
  case (JObj kvs)
  with assms show ?thesis by (simp add: bind_def)
qed (use assms in \<open>simp_all add: bind_def\<close>)

lemma log_project_bound: "bind e pn = Bound key \<Longrightarrow> log_project pn = Inr ()"
  by (simp add: log_project_def bind_not_throwing)

text \<open>Once the first entry of the body is known, the handler is a function of it.\<close>

lemma upload_try_first:
  assumes "entries body = (uid, content) # rest"
  shows "upload_try e body d =
     (case projectName content of
        Inl x \<Rightarrow> (Inl x, d)
      | Inr pn \<Rightarrow>
          if \<not> truthy pn
          then (Inr (send 400 ''Invalid JSON: 'project' field missing.''), d)
          else
            (case questionsOrLogic content of
               Inl x \<Rightarrow> (Inl x, d)
             | Inr ql \<Rightarrow>
                 if truthy ql then
                   (case log_project pn of
                      Inl x \<Rightarrow> (Inl x, d)
                    | Inr l \<Rightarrow>
                        (case upsertDefinition e pn body d of
                           (Inl x, d') \<Rightarrow> (Inl x, d')
                         | (Inr u, d') \<Rightarrow> (Inr (send 200 ''Definition Saved''), d')))
                 else
                   (case selectDefinition e pn d of
                      (Inl x, d') \<Rightarrow> (Inl x, d')
                    | (Inr defCheck, d') \<Rightarrow>
                        if \<not> defCheck
                        then
                          (case log_project pn of
                             Inl x \<Rightarrow> (Inl x, d')
                           | Inr l \<Rightarrow>
                               (Inr (send 412 ''Precondition Failed: Project definition not found''), d'))
                        else
                          (case insertSubmission e uid pn body d' of
                             (Inr u, d'') \<Rightarrow> (Inr (send 200 ''OK''), d'')
                           | (Inl err, d'') \<Rightarrow>
                               if err = SQLITE_CONSTRAINT_PRIMARYKEY
                               then (Inr (send 200 ''Already Saved''), d'')
                               else (Inl err, d'')))))"
  unfolding upload_try_def
  by (simp add: object_keys_first [OF assms] get_first [OF assms])

lemma upload_keys_throw:
  "object_keys body = Inl x \<Longrightarrow> upload e body d = (send 500 ''Internal Server Error'', d)"
  by (simp add: upload_def upload_try_def)

lemma upload_no_keys:
  "object_keys body = Inr [] \<Longrightarrow> upload e body d = (send 400 ''Empty JSON'', d)"
  by (simp add: upload_def upload_try_def)

lemma upload_content_throws:
  "entries body = (uid, content) # rest \<Longrightarrow> projectName content = Inl x
   \<Longrightarrow> upload e body d = (send 500 ''Internal Server Error'', d)"
  by (simp add: upload_def upload_try_first)

lemma upload_falsy_project:
  "entries body = (uid, content) # rest \<Longrightarrow> projectName content = Inr pn \<Longrightarrow> \<not> truthy pn
   \<Longrightarrow> upload e body d = (send 400 ''Invalid JSON: 'project' field missing.'', d)"
  by (simp add: upload_def upload_try_first)

lemma upload_definition_branch:
  "entries body = (uid, content) # rest \<Longrightarrow> projectName content = Inr pn \<Longrightarrow> truthy pn
   \<Longrightarrow> questionsOrLogic content = Inr ql \<Longrightarrow> truthy ql
   \<Longrightarrow> upload e body d =
       (if toString_throws pn then (send 500 ''Internal Server Error'', d)
        else
          (case upsertDefinition e pn body d of
             (Inl x, d') \<Rightarrow> (send 500 ''Internal Server Error'', d')
           | (Inr u, d') \<Rightarrow> (send 200 ''Definition Saved'', d')))"
  by (simp add: upload_def upload_try_first log_project_def split: prod.splits sum.splits)

lemma upload_submission_branch:
  "entries body = (uid, content) # rest \<Longrightarrow> projectName content = Inr pn \<Longrightarrow> truthy pn
   \<Longrightarrow> questionsOrLogic content = Inr ql \<Longrightarrow> \<not> truthy ql
   \<Longrightarrow> upload e body d =
       (case selectDefinition e pn d of
          (Inl x, d') \<Rightarrow> (send 500 ''Internal Server Error'', d')
        | (Inr defCheck, d') \<Rightarrow>
            if \<not> defCheck
            then
              (if toString_throws pn then (send 500 ''Internal Server Error'', d')
               else (send 412 ''Precondition Failed: Project definition not found'', d'))
            else
              (case insertSubmission e uid pn body d' of
                 (Inr u, d'') \<Rightarrow> (send 200 ''OK'', d'')
               | (Inl err, d'') \<Rightarrow>
                   if err = SQLITE_CONSTRAINT_PRIMARYKEY
                   then (send 200 ''Already Saved'', d'')
                   else (send 500 ''Internal Server Error'', d'')))"
  by (simp add: upload_def upload_try_first log_project_def split: prod.splits sum.splits)

lemma upload_definition_stored:
  assumes "entries body = (uid, content) # rest"
    and "projectName content = Inr pn" and "truthy pn"
    and "questionsOrLogic content = Inr ql" and "truthy ql"
    and "bind e pn = Bound key" and "\<not> fails e UpsertDefinition"
  shows "upload e body d =
     (send 200 ''Definition Saved'',
      logged UpsertDefinition
        (d\<lparr>definitions := replaceDefinition key (stringify body) (definitions d)\<rparr>))"
  using assms bind_not_throwing [OF assms(6)]
  by (simp add: upload_definition_branch upsertDefinition_def)

lemma upload_definition_refused:
  assumes "entries body = (uid, content) # rest"
    and "projectName content = Inr pn" and "truthy pn"
    and "questionsOrLogic content = Inr ql" and "truthy ql"
    and "\<not> toString_throws pn" and "bind e pn = Refused \<or> fails e UpsertDefinition"
  shows "upload e body d = (send 500 ''Internal Server Error'', logged UpsertDefinition d)"
  using assms
  by (auto simp: upload_definition_branch upsertDefinition_def split: bound.splits)

lemma upload_definition_log_throws:
  assumes "entries body = (uid, content) # rest"
    and "projectName content = Inr pn" and "truthy pn"
    and "questionsOrLogic content = Inr ql" and "truthy ql"
    and "toString_throws pn"
  shows "upload e body d = (send 500 ''Internal Server Error'', d)"
  using assms by (simp add: upload_definition_branch)


lemma upload_submission_stored:
  assumes "entries body = (uid, content) # rest"
    and "projectName content = Inr pn" and "truthy pn"
    and "questionsOrLogic content = Inr ql" and "\<not> truthy ql"
    and "bind e pn = Bound key" and "definitionExists d key"
    and "\<not> fails e SelectDefinition" and "\<not> fails e InsertSubmission"
    and "uid \<notin> set (map sub_id (submissions d))"
  shows "upload e body d =
     (send 200 ''OK'',
      logged InsertSubmission
        ((logged SelectDefinition d)\<lparr>submissions :=
             submissions d
             @ [\<lparr>sub_id = uid, sub_project_name = key,
                 sub_timestamp = now e, sub_payload = stringify body\<rparr>]\<rparr>))"
  using assms by (simp add: upload_submission_branch selectDefinition_def insertSubmission_def)


text \<open>Where the project name can be read, so can the two classifying fields.\<close>

lemma questionsOrLogic_total:
  "projectName content = Inr pn \<Longrightarrow> \<exists>ql. questionsOrLogic content = Inr ql"
  by (auto simp: projectName_def questionsOrLogic_def get_def split: if_splits)


text \<open>Where \<^verbatim>\<open>content.project\<close> is falsy, a \<^verbatim>\<open>content.quiz.project\<close> that is there is the project name.\<close>

lemma quiz_project_used:
  assumes "get content ''project'' = Inr p" and "\<not> truthy p"
    and "quizProject content \<noteq> JUndefined"
  shows "projectName content = Inr (quizProject content)"
proof -
  from assms(1) have "content \<noteq> JNull" and "content \<noteq> JUndefined"
    by (auto simp: get_def split: if_splits)
  then obtain q where q: "get content ''quiz'' = Inr q"
    by (simp add: get_def)
  with assms(3) obtain v where v: "get q ''project'' = Inr v" and "v \<noteq> JUndefined"
    by (auto simp: quizProject_def split: sum.splits)
  then have "truthy q"
    by (cases q) (auto simp: get_def split: if_splits)
  with assms(1,2) q v show ?thesis
    by (simp add: projectName_def quizProject_def)
qed

subsection \<open>The stored payload\<close>

text \<open>
  The text written for a document denotes the document itself when every number in it
  is finite and not minus zero.
\<close>

lemma stringify_plain: "plain v \<Longrightarrow> stringify v = v"
proof (induction v rule: stringify.induct)
  case (1 n)
  then show ?case by (cases n) simp_all
next
  case (2 xs)
  have "map (\<lambda>x. if x = JUndefined then JNull else stringify x) xs = map (\<lambda>x. x) xs"
  proof (rule map_cong [OF refl])
    fix x assume x: "x \<in> set xs"
    with "2.prems" have p: "plain x" by (simp add: list_all_iff)
    then have "x \<noteq> JUndefined" by auto
    with "2.IH" x p show "(if x = JUndefined then JNull else stringify x) = x" by simp
  qed
  then show ?case by simp
next
  case (3 kvs)
  from "3.prems" have all: "\<forall>kv \<in> set kvs. plain (snd kv)" by (simp add: list_all_iff)
  then have keep: "filter (\<lambda>kv. snd kv \<noteq> JUndefined) kvs = kvs"
    by (auto simp: filter_id_conv)
  have "map (\<lambda>kv. (fst kv, stringify (snd kv))) kvs = map (\<lambda>kv. kv) kvs"
  proof (rule map_cong [OF refl])
    fix kv assume kv: "kv \<in> set kvs"
    with all have "plain (snd kv)" by blast
    moreover from kv keep have "kv \<in> set (filter (\<lambda>kv. snd kv \<noteq> JUndefined) kvs)" by simp
    ultimately have "stringify (snd kv) = snd kv" using "3.IH" by blast
    then show "(fst kv, stringify (snd kv)) = kv" by simp
  qed
  with keep show ?case by simp
qed simp_all

subsection \<open>Rows of a key\<close>

lemma filter_replace_same:
  "filter (\<lambda>r. def_project_name r = Some k) (replaceDefinition (Some k) b rows)
   = [\<lparr>def_project_name = Some k, def_payload = b\<rparr>]"
  by (induction rows) (auto simp: replaceDefinition_def)

lemma filter_replace_other:
  "filter (\<lambda>r. def_project_name r \<noteq> Some k) (replaceDefinition (Some k) b rows)
   = filter (\<lambda>r. def_project_name r \<noteq> Some k) rows"
  by (induction rows) (auto simp: replaceDefinition_def)

lemma replace_replace:
  "replaceDefinition (Some k) b (replaceDefinition (Some k) b' rows)
   = replaceDefinition (Some k) b rows"
  by (induction rows) (auto simp: replaceDefinition_def)


subsection \<open>Every request, by what it ran\<close>

text \<open>
  A request leaves the store as it was (no statement was run), or its first entry
  carries a truthy project name and it ran the SELECT alone, the upsert alone, or the
  SELECT and then the INSERT.
\<close>

lemma upload_effect:
  assumes "upload e body d = (r, d')"
  shows "d' = d
    \<or> (\<exists>uid content rest pn. entries body = (uid, content) # rest
          \<and> projectName content = Inr pn \<and> truthy pn
          \<and> (journal d' = SelectDefinition # journal d
                \<and> definitions d' = definitions d \<and> submissions d' = submissions d
              \<or> journal d' = UpsertDefinition # journal d \<and> submissions d' = submissions d
                \<and> (definitions d' = definitions d
                    \<or> (\<exists>key. bind e pn = Bound key
                         \<and> definitions d'
                             = replaceDefinition key (stringify body) (definitions d)))
              \<or> journal d' = InsertSubmission # SelectDefinition # journal d
                \<and> definitions d' = definitions d
                \<and> (submissions d' = submissions d
                    \<or> (\<exists>key. bind e pn = Bound key
                         \<and> submissions d' = submissions d
                              @ [\<lparr>sub_id = uid, sub_project_name = key,
                                  sub_timestamp = now e, sub_payload = stringify body\<rparr>]))))"
proof -
  consider (threw) "object_keys body = Inl TypeError"
    | (empty) "object_keys body = Inr []"
    | (entry) uid content rest where "entries body = (uid, content) # rest"
    using object_keys_cases by blast
  then show ?thesis
  proof cases
    case threw
    with assms show ?thesis by (simp add: upload_keys_throw)
  next
    case empty
    with assms show ?thesis by (simp add: upload_no_keys)
  next
    case entry
    show ?thesis
    proof (cases "projectName content")
      case (Inl x)
      with entry assms show ?thesis by (simp add: upload_content_throws)
    next
      case (Inr pn)
      show ?thesis
      proof (cases "truthy pn")
        case False
        with entry Inr assms show ?thesis by (simp add: upload_falsy_project)
      next
        case True
        from Inr obtain ql where ql: "questionsOrLogic content = Inr ql"
          using questionsOrLogic_total by blast
        have "d' = d
              \<or> journal d' = SelectDefinition # journal d
                \<and> definitions d' = definitions d \<and> submissions d' = submissions d
              \<or> journal d' = UpsertDefinition # journal d \<and> submissions d' = submissions d
                \<and> (definitions d' = definitions d
                    \<or> (\<exists>key. bind e pn = Bound key
                         \<and> definitions d'
                             = replaceDefinition key (stringify body) (definitions d)))
              \<or> journal d' = InsertSubmission # SelectDefinition # journal d
                \<and> definitions d' = definitions d
                \<and> (submissions d' = submissions d
                    \<or> (\<exists>key. bind e pn = Bound key
                         \<and> submissions d' = submissions d
                              @ [\<lparr>sub_id = uid, sub_project_name = key,
                                  sub_timestamp = now e, sub_payload = stringify body\<rparr>]))"
        proof (cases "truthy ql")
          case True
          have "upload e body d =
             (if toString_throws pn then (send 500 ''Internal Server Error'', d)
              else
                (case upsertDefinition e pn body d of
                   (Inl x, d') \<Rightarrow> (send 500 ''Internal Server Error'', d')
                 | (Inr u, d') \<Rightarrow> (send 200 ''Definition Saved'', d')))"
            using entry Inr \<open>truthy pn\<close> ql True by (rule upload_definition_branch)
          with assms show ?thesis
            by (auto simp: upsertDefinition_def split: bound.splits if_splits)
        next
          case False
          have "upload e body d =
             (case selectDefinition e pn d of
                (Inl x, d') \<Rightarrow> (send 500 ''Internal Server Error'', d')
              | (Inr defCheck, d') \<Rightarrow>
                  if \<not> defCheck
                  then
                    (if toString_throws pn then (send 500 ''Internal Server Error'', d')
                     else (send 412 ''Precondition Failed: Project definition not found'', d'))
                  else
                    (case insertSubmission e uid pn body d' of
                       (Inr u, d'') \<Rightarrow> (send 200 ''OK'', d'')
                     | (Inl err, d'') \<Rightarrow>
                         if err = SQLITE_CONSTRAINT_PRIMARYKEY
                         then (send 200 ''Already Saved'', d'')
                         else (send 500 ''Internal Server Error'', d'')))"
            using entry Inr \<open>truthy pn\<close> ql False by (rule upload_submission_branch)
          with assms show ?thesis
            by (auto simp: selectDefinition_def insertSubmission_def
                split: bound.splits if_splits)
        qed
        with entry Inr True show ?thesis by blast
      qed
    qed
  qed
qed

text \<open>The answers the handler can give: seven pairs of a status and a text.\<close>

lemma upload_responses:
  "fst (upload e body d) \<in>
     {send 400 ''Empty JSON'',
      send 400 ''Invalid JSON: 'project' field missing.'',
      send 200 ''Definition Saved'',
      send 412 ''Precondition Failed: Project definition not found'',
      send 200 ''OK'',
      send 200 ''Already Saved'',
      send 500 ''Internal Server Error''}"
proof -
  consider (threw) "object_keys body = Inl TypeError"
    | (empty) "object_keys body = Inr []"
    | (entry) uid content rest where "entries body = (uid, content) # rest"
    using object_keys_cases by blast
  then show ?thesis
  proof cases
    case threw
    then show ?thesis by (simp add: upload_keys_throw)
  next
    case empty
    then show ?thesis by (simp add: upload_no_keys)
  next
    case entry
    show ?thesis
      unfolding upload_def upload_try_first [OF entry]
      by (simp add: upsertDefinition_def selectDefinition_def insertSubmission_def
          log_project_def split: sum.splits bound.splits)
  qed
qed

lemma response_first_key_only:
  assumes "entries body = (uid, content) # rest"
  shows "fst (upload e body d) = fst (upload e (JObj [(uid, content)]) d)"
proof -
  have one: "entries (JObj [(uid, content)]) = (uid, content) # []"
    by simp
  show ?thesis
    unfolding upload_def upload_try_first [OF assms] upload_try_first [OF one]
    by (simp add: upsertDefinition_def selectDefinition_def insertSubmission_def
        log_project_def split: sum.splits bound.splits)
qed

lemma response_not_empty_json:
  assumes "entries body = (uid, content) # rest"
  shows "sent (fst (upload e body d)) \<noteq> ''Empty JSON''"
  unfolding upload_def upload_try_first [OF assms]
  by (simp add: upsertDefinition_def selectDefinition_def insertSubmission_def send_def
      log_project_def split: sum.splits bound.splits)

subsection \<open>The scenario of the specification, evaluated\<close>

lemma sample_definition_entries:
  "entries sample_definition = (''Proj-1'', definition_content) # []"
  by (simp add: sample_definition_def)

lemma sample_submission_entries:
  "entries sample_submission = (''Sub-1'', submission_content) # []"
  by (simp add: sample_submission_def)

lemma definition_content_project: "projectName definition_content = Inr (JStr ''Proj'')"
  by (simp add: projectName_def get_def definition_content_def)

lemma definition_content_questions:
  "questionsOrLogic definition_content = Inr (JArr [JStr ''q1''])"
  by (simp add: questionsOrLogic_def get_def definition_content_def)

lemma submission_content_project: "projectName submission_content = Inr (JStr ''Proj'')"
  by (simp add: projectName_def get_def submission_content_def)

lemma submission_content_questions: "questionsOrLogic submission_content = Inr JUndefined"
  by (simp add: questionsOrLogic_def get_def submission_content_def)

lemma sample_definition_plain: "plain sample_definition"
  by (simp add: sample_definition_def definition_content_def)

lemma sample_submission_plain: "plain sample_submission"
  by (simp add: sample_submission_def submission_content_def)

lemma env0_binds: "bind env0 (JStr s) = Bound (Some (JStr s))"
  by (simp add: bind_def bind_value_def env0_def)

lemma env0_no_fault: "\<not> fails env0 s"
  by (simp add: env0_def)

lemma now_env0: "now env0 = 0"
  by (simp add: env0_def)

lemma proj_unknown_db0: "\<not> definitionExists db0 (Some (JStr ''Proj''))"
  by (simp add: definitionExists_def db0_def)

lemma proj_known_db1: "definitionExists db1 (Some (JStr ''Proj''))"
  by (simp add: definitionExists_def db1_def)

lemma sub1_fresh_db1: "''Sub-1'' \<notin> set (map sub_id (submissions db1))"
  by (simp add: db1_def)

lemma upload_definition_db0:
  "upload env0 sample_definition db0 = (send 200 ''Definition Saved'', db1)"
proof -
  have "truthy (JStr ''Proj'')" and "truthy (JArr [JStr ''q1''])"
    by simp_all
  then show ?thesis
    using upload_definition_stored
      [OF sample_definition_entries definition_content_project _ definition_content_questions _
        env0_binds env0_no_fault, of db0]
    by (simp add: db0_def db1_def logged_def replaceDefinition_def
        stringify_plain [OF sample_definition_plain])
qed

lemma upload_definition_db1:
  "upload env0 sample_definition db1
     = (send 200 ''Definition Saved'', logged UpsertDefinition db1)"
proof -
  have "truthy (JStr ''Proj'')" and "truthy (JArr [JStr ''q1''])"
    by simp_all
  then show ?thesis
    using upload_definition_stored
      [OF sample_definition_entries definition_content_project _ definition_content_questions _
        env0_binds env0_no_fault, of db1]
    by (simp add: db1_def logged_def replaceDefinition_def
        stringify_plain [OF sample_definition_plain])
qed

lemma upload_submission_db1:
  "upload env0 sample_submission db1 = (send 200 ''OK'', db2)"
proof -
  have "truthy (JStr ''Proj'')" and "\<not> truthy JUndefined"
    by simp_all
  then show ?thesis
    using upload_submission_stored
      [OF sample_submission_entries submission_content_project _ submission_content_questions _
        env0_binds proj_known_db1 env0_no_fault env0_no_fault sub1_fresh_db1]
    by (simp add: db1_def db2_def logged_def now_env0
        stringify_plain [OF sample_submission_plain])
qed


section \<open>The claims\<close>

subsection \<open>C1: a definition upload never meets the referential precondition\<close>

text \<open>
  C1 as stated fails: a document whose content has a truthy \<^verbatim>\<open>questions\<close> field and no
  project name is answered 400, not "Definition Saved": the check of the project name
  comes before the classification.
\<close>

theorem definition_without_project_name_rejected:
  "questionsOrLogic (JObj [(''questions'', JArr [JNum (Finite 1)])]) = Inr (JArr [JNum (Finite 1)])
   \<and> truthy (JArr [JNum (Finite 1)])
   \<and> upload env0 (JObj [(''X'', JObj [(''questions'', JArr [JNum (Finite 1)])])]) db0
       = (send 400 ''Invalid JSON: 'project' field missing.'', db0)"
  by (simp add: upload_def upload_try_def object_keys_def get_def projectName_def
      questionsOrLogic_def)

text \<open>
  C1, amended: for every document whose first entry carries a truthy project name and a
  truthy \<^verbatim>\<open>questions\<close> or \<^verbatim>\<open>logic\<close> field, whatever the store holds, the handler never
  asks whether the project is known, never answers 412 and never touches the
  submissions. It answers "Definition Saved" (200), the whole document written under the
  bound key, when the driver binds the project name and the upsert meets no fault. In
  every other case it answers 500 with both tables as they were: when the conversion of
  the project name to a string throws at the log line, before any statement is run, and
  when the driver refuses the project name or the upsert meets a fault.
\<close>

theorem definition_upload_skips_precondition:
  assumes "entries body = (uid, content) # rest"
    and "projectName content = Inr pn" and "truthy pn"
    and "questionsOrLogic content = Inr ql" and "truthy ql"
  shows "(\<forall>key. bind e pn = Bound key \<and> \<not> fails e UpsertDefinition \<longrightarrow>
          upload e body d =
            (send 200 ''Definition Saved'',
             logged UpsertDefinition
               (d\<lparr>definitions := replaceDefinition key (stringify body) (definitions d)\<rparr>)))
     \<and> (toString_throws pn \<longrightarrow> upload e body d = (send 500 ''Internal Server Error'', d))
     \<and> (\<not> toString_throws pn \<and> (bind e pn = Refused \<or> fails e UpsertDefinition) \<longrightarrow>
          upload e body d = (send 500 ''Internal Server Error'', logged UpsertDefinition d))
     \<and> status (fst (upload e body d)) \<noteq> 412
     \<and> SelectDefinition \<notin> set (take (length (journal (snd (upload e body d))) - length (journal d))
                                  (journal (snd (upload e body d))))
     \<and> submissions (snd (upload e body d)) = submissions d"
proof -
  have stored: "upload e body d =
            (send 200 ''Definition Saved'',
             logged UpsertDefinition
               (d\<lparr>definitions := replaceDefinition key (stringify body) (definitions d)\<rparr>))"
    if "bind e pn = Bound key" and "\<not> fails e UpsertDefinition" for key
    using assms that by (rule upload_definition_stored)
  have thrown: "upload e body d = (send 500 ''Internal Server Error'', d)"
    if "toString_throws pn"
    using assms that by (rule upload_definition_log_throws)
  have refused: "upload e body d = (send 500 ''Internal Server Error'', logged UpsertDefinition d)"
    if "\<not> toString_throws pn" and "bind e pn = Refused \<or> fails e UpsertDefinition"
    using assms that by (rule upload_definition_refused)
  consider (a) key where "bind e pn = Bound key" and "\<not> fails e UpsertDefinition"
    | (b) "toString_throws pn"
    | (c) "\<not> toString_throws pn" and "bind e pn = Refused \<or> fails e UpsertDefinition"
    by (cases "bind e pn") auto
  then have rest: "status (fst (upload e body d)) \<noteq> 412
     \<and> SelectDefinition \<notin> set (take (length (journal (snd (upload e body d))) - length (journal d))
                                  (journal (snd (upload e body d))))
     \<and> submissions (snd (upload e body d)) = submissions d"
  proof cases
    case a
    then show ?thesis by (simp add: stored send_def)
  next
    case b
    then show ?thesis by (simp add: thrown send_def)
  next
    case c
    then show ?thesis by (simp add: refused send_def)
  qed
  from stored thrown refused rest show ?thesis by blast
qed

theorem definition_upload_skips_precondition_witness:
  "entries sample_definition = (''Proj-1'', definition_content) # []
   \<and> projectName definition_content = Inr (JStr ''Proj'') \<and> truthy (JStr ''Proj'')
   \<and> questionsOrLogic definition_content = Inr (JArr [JStr ''q1'']) \<and> truthy (JArr [JStr ''q1''])
   \<and> bind env0 (JStr ''Proj'') = Bound (Some (JStr ''Proj'')) \<and> \<not> fails env0 UpsertDefinition
   \<and> \<not> definitionExists db0 (Some (JStr ''Proj''))
   \<and> upload env0 sample_definition db0 = (send 200 ''Definition Saved'', db1)
   \<and> status (fst (upload env0 sample_definition db0)) \<noteq> 412
   \<and> submissions (snd (upload env0 sample_definition db0)) = submissions db0
   \<and> toString_throws (JObj [(''toString'', JNum (Finite 0))])
   \<and> upload env0
        (JObj [(''T'', JObj [(''project'', JObj [(''toString'', JNum (Finite 0))]),
                             (''logic'', JBool True)])]) db1
       = (send 500 ''Internal Server Error'', db1)
   \<and> \<not> toString_throws (JBool True) \<and> bind env0 (JBool True) = Refused
   \<and> upload env0 (JObj [(''B'', JObj [(''project'', JBool True), (''logic'', JBool True)])]) db1
       = (send 500 ''Internal Server Error'', logged UpsertDefinition db1)"
proof -
  have t: "truthy (JStr ''Proj'')" and q: "truthy (JArr [JStr ''q1''])"
    by simp_all
  note stored = definition_upload_skips_precondition
    [OF sample_definition_entries definition_content_project t definition_content_questions q,
     of env0 db0]
  from stored env0_binds env0_no_fault
  have "upload env0 sample_definition db0 =
      (send 200 ''Definition Saved'',
       logged UpsertDefinition
         (db0\<lparr>definitions :=
              replaceDefinition (Some (JStr ''Proj'')) (stringify sample_definition)
                (definitions db0)\<rparr>))"
    by blast
  then have first: "upload env0 sample_definition db0 = (send 200 ''Definition Saved'', db1)"
    by (simp add: db0_def db1_def logged_def replaceDefinition_def
        stringify_plain [OF sample_definition_plain])
  from stored have never: "status (fst (upload env0 sample_definition db0)) \<noteq> 412"
    and subs: "submissions (snd (upload env0 sample_definition db0)) = submissions db0"
    by blast+
  have e1: "entries
      (JObj [(''T'', JObj [(''project'', JObj [(''toString'', JNum (Finite 0))]),
                           (''logic'', JBool True)])])
      = (''T'', JObj [(''project'', JObj [(''toString'', JNum (Finite 0))]),
                      (''logic'', JBool True)]) # []"
    by simp
  have p1: "projectName (JObj [(''project'', JObj [(''toString'', JNum (Finite 0))]),
                               (''logic'', JBool True)])
      = Inr (JObj [(''toString'', JNum (Finite 0))])"
    by (simp add: projectName_def get_def)
  have q1: "questionsOrLogic (JObj [(''project'', JObj [(''toString'', JNum (Finite 0))]),
                                    (''logic'', JBool True)]) = Inr (JBool True)"
    by (simp add: questionsOrLogic_def get_def)
  have t1: "truthy (JObj [(''toString'', JNum (Finite 0))])" and tb: "truthy (JBool True)"
    by simp_all
  have th: "toString_throws (JObj [(''toString'', JNum (Finite 0))])"
    by simp
  from definition_upload_skips_precondition [OF e1 p1 t1 q1 tb, of env0 db1] th
  have thrown: "upload env0
        (JObj [(''T'', JObj [(''project'', JObj [(''toString'', JNum (Finite 0))]),
                             (''logic'', JBool True)])]) db1
       = (send 500 ''Internal Server Error'', db1)"
    by blast
  have e2: "entries (JObj [(''B'', JObj [(''project'', JBool True), (''logic'', JBool True)])])
      = (''B'', JObj [(''project'', JBool True), (''logic'', JBool True)]) # []"
    by simp
  have p2: "projectName (JObj [(''project'', JBool True), (''logic'', JBool True)])
      = Inr (JBool True)"
    by (simp add: projectName_def get_def)
  have q2: "questionsOrLogic (JObj [(''project'', JBool True), (''logic'', JBool True)])
      = Inr (JBool True)"
    by (simp add: questionsOrLogic_def get_def)
  have nt: "\<not> toString_throws (JBool True)"
    by simp
  have rf: "bind env0 (JBool True) = Refused"
    by (simp add: bind_def bind_value_def)
  from definition_upload_skips_precondition [OF e2 p2 tb q2 tb, of env0 db1] nt rf
  have refused: "upload env0
        (JObj [(''B'', JObj [(''project'', JBool True), (''logic'', JBool True)])]) db1
       = (send 500 ''Internal Server Error'', logged UpsertDefinition db1)"
    by blast
  from first never subs thrown refused th nt rf show ?thesis
    using sample_definition_entries definition_content_project definition_content_questions
      env0_binds env0_no_fault proj_unknown_db0 t q
    by simp
qed

subsection \<open>C2: a submission is stored once\<close>



subsection \<open>C3: a submission for an unknown project\<close>



subsection \<open>C4: a definition upload is an upsert\<close>

text \<open>
  C4 as stated fails twice. A project name can be bound as NULL, and NULL never equals
  the key of a row: the document whose project is \<^verbatim>\<open>[null]\<close>, uploaded twice, is answered
  "Definition Saved" twice and leaves two definition rows. And the payload is the text
  \<^verbatim>\<open>JSON.stringify\<close> writes, which is not the document when a number in it parsed to
  infinity: the row holds \<^verbatim>\<open>null\<close> in its place.
\<close>

theorem null_project_definition_stored_twice:
  "upload env0 null_project_definition db0
     = (send 200 ''Definition Saved'',
        \<lparr>definitions = [\<lparr>def_project_name = None, def_payload = null_project_definition\<rparr>],
         submissions = [], journal = [UpsertDefinition]\<rparr>)
   \<and> upload env0 null_project_definition
        \<lparr>definitions = [\<lparr>def_project_name = None, def_payload = null_project_definition\<rparr>],
         submissions = [], journal = [UpsertDefinition]\<rparr>
     = (send 200 ''Definition Saved'',
        \<lparr>definitions = [\<lparr>def_project_name = None, def_payload = null_project_definition\<rparr>,
                        \<lparr>def_project_name = None, def_payload = null_project_definition\<rparr>],
         submissions = [], journal = [UpsertDefinition, UpsertDefinition]\<rparr>)
   \<and> upload env0 overflow_definition db0
     = (send 200 ''Definition Saved'',
        \<lparr>definitions =
           [\<lparr>def_project_name = Some (JStr ''Proj''),
             def_payload =
               JObj [(''O'', JObj [(''project'', JStr ''Proj''), (''questions'', JArr [JNull])])]\<rparr>],
         submissions = [], journal = [UpsertDefinition]\<rparr>)
   \<and> JObj [(''O'', JObj [(''project'', JStr ''Proj''), (''questions'', JArr [JNull])])]
       \<noteq> overflow_definition"
  by (simp add: upload_def upload_try_def object_keys_def get_def projectName_def
      questionsOrLogic_def log_project_def upsertDefinition_def bind_def bind_value_def
      replaceDefinition_def logged_def env0_def db0_def
      null_project_definition_def overflow_definition_def Let_def)

text \<open>
  C4, amended: for every project name that the driver binds to a key other than NULL,
  after a definition document is uploaded and a definition document for the same key
  is uploaded again, exactly one definition row has that key; its payload is what
  \<^verbatim>\<open>JSON.stringify\<close> writes for the whole document of the most recent upload, which
  denotes that document itself when its numbers are finite and not minus zero. The rows
  of the other keys and the submissions are untouched, and when the second document is
  the first one again the table of definitions is the same after the second upload as
  after the first. The upsert meets no fault.
\<close>

theorem definition_upsert_last_write_wins:
  assumes "entries body = (uid, content) # rest"
    and "projectName content = Inr pn" and "truthy pn"
    and "questionsOrLogic content = Inr ql" and "truthy ql"
    and "bind e pn = Bound (Some k)" and "\<not> fails e UpsertDefinition"
    and "entries body' = (uid', content') # rest'"
    and "projectName content' = Inr pn'" and "truthy pn'"
    and "questionsOrLogic content' = Inr ql'" and "truthy ql'"
    and "bind e' pn' = Bound (Some k)" and "\<not> fails e' UpsertDefinition"
    and "upload e body d = (r1, d1)" and "upload e' body' d1 = (r2, d2)"
  shows "r1 = send 200 ''Definition Saved'' \<and> r2 = send 200 ''Definition Saved''
     \<and> filter (\<lambda>r. def_project_name r = Some k) (definitions d1)
          = [\<lparr>def_project_name = Some k, def_payload = stringify body\<rparr>]
     \<and> filter (\<lambda>r. def_project_name r = Some k) (definitions d2)
          = [\<lparr>def_project_name = Some k, def_payload = stringify body'\<rparr>]
     \<and> (plain body' \<longrightarrow>
          filter (\<lambda>r. def_project_name r = Some k) (definitions d2)
            = [\<lparr>def_project_name = Some k, def_payload = body'\<rparr>])
     \<and> filter (\<lambda>r. def_project_name r \<noteq> Some k) (definitions d2)
          = filter (\<lambda>r. def_project_name r \<noteq> Some k) (definitions d)
     \<and> (body' = body \<longrightarrow> definitions d2 = definitions d1)
     \<and> submissions d2 = submissions d"
proof -
  have "upload e body d =
     (send 200 ''Definition Saved'',
      logged UpsertDefinition
        (d\<lparr>definitions := replaceDefinition (Some k) (stringify body) (definitions d)\<rparr>))"
    using assms(1-7) by (rule upload_definition_stored)
  with assms(15) have r1: "r1 = send 200 ''Definition Saved''"
    and d1: "d1 = logged UpsertDefinition
        (d\<lparr>definitions := replaceDefinition (Some k) (stringify body) (definitions d)\<rparr>)"
    by simp_all
  have def1: "definitions d1 = replaceDefinition (Some k) (stringify body) (definitions d)"
    and sub1: "submissions d1 = submissions d"
    by (simp_all add: d1)
  have "upload e' body' d1 =
     (send 200 ''Definition Saved'',
      logged UpsertDefinition
        (d1\<lparr>definitions := replaceDefinition (Some k) (stringify body') (definitions d1)\<rparr>))"
    using assms(8-14) by (rule upload_definition_stored)
  with assms(16) have r2: "r2 = send 200 ''Definition Saved''"
    and d2: "d2 = logged UpsertDefinition
        (d1\<lparr>definitions := replaceDefinition (Some k) (stringify body') (definitions d1)\<rparr>)"
    by simp_all
  have def2: "definitions d2 = replaceDefinition (Some k) (stringify body') (definitions d)"
    and sub2: "submissions d2 = submissions d"
    by (simp_all add: d2 def1 sub1 replace_replace)
  have one1: "filter (\<lambda>r. def_project_name r = Some k) (definitions d1)
          = [\<lparr>def_project_name = Some k, def_payload = stringify body\<rparr>]"
    unfolding def1 by (rule filter_replace_same)
  have one2: "filter (\<lambda>r. def_project_name r = Some k) (definitions d2)
          = [\<lparr>def_project_name = Some k, def_payload = stringify body'\<rparr>]"
    unfolding def2 by (rule filter_replace_same)
  have whole: "plain body' \<longrightarrow>
          filter (\<lambda>r. def_project_name r = Some k) (definitions d2)
            = [\<lparr>def_project_name = Some k, def_payload = body'\<rparr>]"
    using one2 by (simp add: stringify_plain)
  have others2: "filter (\<lambda>r. def_project_name r \<noteq> Some k) (definitions d2)
          = filter (\<lambda>r. def_project_name r \<noteq> Some k) (definitions d)"
    unfolding def2 by (rule filter_replace_other)
  have same: "body' = body \<longrightarrow> definitions d2 = definitions d1"
    by (simp add: def1 def2)
  from r1 r2 one1 one2 whole others2 same sub2 show ?thesis by simp
qed

theorem definition_upsert_last_write_wins_witness:
  "entries sample_definition = (''Proj-1'', definition_content) # []
   \<and> projectName definition_content = Inr (JStr ''Proj'') \<and> truthy (JStr ''Proj'')
   \<and> questionsOrLogic definition_content = Inr (JArr [JStr ''q1'']) \<and> truthy (JArr [JStr ''q1''])
   \<and> bind env0 (JStr ''Proj'') = Bound (Some (JStr ''Proj'')) \<and> \<not> fails env0 UpsertDefinition
   \<and> plain sample_definition
   \<and> upload env0 sample_definition db0 = (send 200 ''Definition Saved'', db1)
   \<and> upload env0 sample_definition db1 = (send 200 ''Definition Saved'', logged UpsertDefinition db1)
   \<and> filter (\<lambda>r. def_project_name r = Some (JStr ''Proj''))
        (definitions (logged UpsertDefinition db1))
       = [\<lparr>def_project_name = Some (JStr ''Proj''), def_payload = sample_definition\<rparr>]
   \<and> definitions (logged UpsertDefinition db1) = definitions db1
   \<and> submissions (logged UpsertDefinition db1) = submissions db0"
proof -
  have t: "truthy (JStr ''Proj'')" and q: "truthy (JArr [JStr ''q1''])"
    by simp_all
  from definition_upsert_last_write_wins
    [OF sample_definition_entries definition_content_project t definition_content_questions q
      env0_binds env0_no_fault
      sample_definition_entries definition_content_project t definition_content_questions q
      env0_binds env0_no_fault upload_definition_db0 upload_definition_db1]
  show ?thesis
    using sample_definition_entries definition_content_project definition_content_questions
      env0_binds env0_no_fault upload_definition_db0 upload_definition_db1
      sample_definition_plain t q
    by (simp add: stringify_plain [OF sample_definition_plain])
qed

subsection \<open>C5: the envelope check\<close>

text \<open>
  C5 as stated fails: a document with two top-level keys is not answered 400; the
  handler takes the first key and stores the definition.
\<close>

theorem two_key_document_accepted:
  "object_keys (JObj [(''A'', definition_content), (''B'', JNum (Finite 1))]) = Inr [''A'', ''B'']
   \<and> upload env0 (JObj [(''A'', definition_content), (''B'', JNum (Finite 1))]) db0
       = (send 200 ''Definition Saved'',
          \<lparr>definitions =
             [\<lparr>def_project_name = Some (JStr ''Proj''),
               def_payload = JObj [(''A'', definition_content), (''B'', JNum (Finite 1))]\<rparr>],
           submissions = [], journal = [UpsertDefinition]\<rparr>)"
proof -
  have keys: "object_keys (JObj [(''A'', definition_content), (''B'', JNum (Finite 1))])
      = Inr [''A'', ''B'']"
    by (simp add: object_keys_def)
  have ent: "entries (JObj [(''A'', definition_content), (''B'', JNum (Finite 1))])
      = (''A'', definition_content) # [(''B'', JNum (Finite 1))]"
    by simp
  have t: "truthy (JStr ''Proj'')" and q: "truthy (JArr [JStr ''q1''])"
    by simp_all
  have p: "plain (JObj [(''A'', definition_content), (''B'', JNum (Finite 1))])"
    by (simp add: definition_content_def)
  have "upload env0 (JObj [(''A'', definition_content), (''B'', JNum (Finite 1))]) db0
       = (send 200 ''Definition Saved'',
          \<lparr>definitions =
             [\<lparr>def_project_name = Some (JStr ''Proj''),
               def_payload = JObj [(''A'', definition_content), (''B'', JNum (Finite 1))]\<rparr>],
           submissions = [], journal = [UpsertDefinition]\<rparr>)"
    using upload_definition_stored
      [OF ent definition_content_project t definition_content_questions q
        env0_binds env0_no_fault, of db0]
    by (simp add: db0_def logged_def replaceDefinition_def stringify_plain [OF p]
        del: stringify.simps)
  with keys show ?thesis by simp
qed

text \<open>
  C5, amended: a document with no top-level key is answered 400 "Empty JSON" and the
  store is as it was. A document with top-level keys is never answered "Empty JSON",
  however many keys it has: the handler reads the first key (in the order of
  \<^verbatim>\<open>Object.keys\<close>) and its value only, and answers as it answers the document that
  holds that one entry.
\<close>

theorem envelope_rejects_only_empty:
  "(object_keys body0 = Inr [] \<longrightarrow> upload e body0 d = (send 400 ''Empty JSON'', d))
   \<and> (entries body = (uid, content) # rest \<longrightarrow>
        fst (upload e body d) = fst (upload e (JObj [(uid, content)]) d)
        \<and> sent (fst (upload e body d)) \<noteq> ''Empty JSON'')"
  using upload_no_keys response_first_key_only response_not_empty_json by blast

theorem envelope_rejects_only_empty_witness:
  "object_keys (JObj []) = Inr []
   \<and> upload env0 (JObj []) db0 = (send 400 ''Empty JSON'', db0)
   \<and> entries (JObj [(''A'', definition_content), (''B'', JNum (Finite 1))])
       = (''A'', definition_content) # [(''B'', JNum (Finite 1))]
   \<and> fst (upload env0 (JObj [(''A'', definition_content), (''B'', JNum (Finite 1))]) db0)
       = fst (upload env0 (JObj [(''A'', definition_content)]) db0)
   \<and> sent (fst (upload env0 (JObj [(''A'', definition_content), (''B'', JNum (Finite 1))]) db0))
       \<noteq> ''Empty JSON''"
proof -
  have none: "object_keys (JObj []) = Inr []"
    by (simp add: object_keys_def)
  have ent: "entries (JObj [(''A'', definition_content), (''B'', JNum (Finite 1))])
      = (''A'', definition_content) # [(''B'', JNum (Finite 1))]"
    by simp
  from envelope_rejects_only_empty
    [of "JObj []" env0 db0 "JObj [(''A'', definition_content), (''B'', JNum (Finite 1))]"
      "''A''" definition_content "[(''B'', JNum (Finite 1))]"]
  show ?thesis using none ent by blast
qed

subsection \<open>C6: a document without a project name\<close>

text \<open>
  C6 says that every non-empty document whose content has neither \<^verbatim>\<open>content.project\<close>
  nor \<^verbatim>\<open>content.quiz.project\<close> is answered 400 "project field missing" with the store
  untouched. The handler does so for a content that is not null (an empty object here);
  for the document \<^verbatim>\<open>{"X": null}\<close>, whose content has neither, reading
  \<^verbatim>\<open>content.project\<close> throws and the answer is 500.
\<close>

theorem null_content_not_missing_project:
  "get (JObj [(''X'', JNull)]) ''X'' = Inr JNull
   \<and> quizProject JNull = JUndefined
   \<and> upload env0 (JObj [(''X'', JNull)]) db0 = (send 500 ''Internal Server Error'', db0)
   \<and> upload env0 (JObj [(''X'', JObj [])]) db0
       = (send 400 ''Invalid JSON: 'project' field missing.'', db0)"
  by (simp add: upload_def upload_try_def object_keys_def get_def projectName_def
      quizProject_def)

subsection \<open>C7: the statuses\<close>

text \<open>
  C7 says that the status is 500 exactly on an unexpected storage fault and 400 exactly
  on a malformed document or a missing project name. For the document \<^verbatim>\<open>{"X": null}\<close>
  the status is 500 although no statement was run (the journal is as it was) on an
  engine that meets no fault.
\<close>

theorem null_content_status_500_without_storage:
  "status (fst (upload env0 (JObj [(''X'', JNull)]) db0)) = 500
   \<and> journal (snd (upload env0 (JObj [(''X'', JNull)]) db0)) = journal db0
   \<and> fails env0 = (\<lambda>s. False)"
  by (simp add: upload_def upload_try_def object_keys_def get_def projectName_def send_def
      env0_def)

subsection \<open>C8: at most one write\<close>

text \<open>
  C8: every request runs at most one writing statement, the upsert of a definition or
  the insert of a submission and never both: the request ran nothing, or the SELECT
  alone, or the upsert alone (the submissions are as they were, and the definitions are
  as they were or hold the one upserted row), or the SELECT and then the insert (the
  definitions are as they were, and the submissions are as they were or have one row
  more).
\<close>

theorem at_most_one_write:
  assumes "upload e body d = (r, d')"
  shows "length (filter is_write (journal d')) \<le> length (filter is_write (journal d)) + 1
    \<and> (journal d' = journal d
          \<and> definitions d' = definitions d \<and> submissions d' = submissions d
        \<or> journal d' = SelectDefinition # journal d
          \<and> definitions d' = definitions d \<and> submissions d' = submissions d
        \<or> journal d' = UpsertDefinition # journal d \<and> submissions d' = submissions d
          \<and> (definitions d' = definitions d
              \<or> (\<exists>key. definitions d'
                          = replaceDefinition key (stringify body) (definitions d)))
        \<or> journal d' = InsertSubmission # SelectDefinition # journal d
          \<and> definitions d' = definitions d
          \<and> (submissions d' = submissions d
              \<or> (\<exists>row. submissions d' = submissions d @ [row])))"
proof -
  let ?ran = "journal d' = journal d
          \<and> definitions d' = definitions d \<and> submissions d' = submissions d
        \<or> journal d' = SelectDefinition # journal d
          \<and> definitions d' = definitions d \<and> submissions d' = submissions d
        \<or> journal d' = UpsertDefinition # journal d \<and> submissions d' = submissions d
          \<and> (definitions d' = definitions d
              \<or> (\<exists>key. definitions d'
                          = replaceDefinition key (stringify body) (definitions d)))
        \<or> journal d' = InsertSubmission # SelectDefinition # journal d
          \<and> definitions d' = definitions d
          \<and> (submissions d' = submissions d
              \<or> (\<exists>row. submissions d' = submissions d @ [row]))"
  have ran: ?ran
    using upload_effect [OF assms] by blast
  then have "journal d' = journal d \<or> journal d' = SelectDefinition # journal d
      \<or> journal d' = UpsertDefinition # journal d
      \<or> journal d' = InsertSubmission # SelectDefinition # journal d"
    by blast
  then have "length (filter is_write (journal d')) \<le> length (filter is_write (journal d)) + 1"
    by (auto simp: is_write_def)
  with ran show ?thesis by blast
qed

theorem at_most_one_write_witness:
  "upload env0 sample_submission db1 = (send 200 ''OK'', db2)
   \<and> length (filter is_write (journal db2)) \<le> length (filter is_write (journal db1)) + 1
   \<and> journal db2 = InsertSubmission # SelectDefinition # journal db1
   \<and> definitions db2 = definitions db1
   \<and> length (submissions db2) = length (submissions db1) + 1"
proof -
  from at_most_one_write [OF upload_submission_db1]
  have "length (filter is_write (journal db2)) \<le> length (filter is_write (journal db1)) + 1"
    by blast
  with upload_submission_db1 show ?thesis
    by (simp add: db1_def db2_def)
qed

subsection \<open>C9: a null content\<close>

text \<open>
  C9: when the value under the first top-level key is null (or undefined), reading the
  project name throws a TypeError and the request is answered 500 "Internal Server
  Error", not 400; the store is as it was and no statement was run.
\<close>

theorem null_content_internal_error:
  assumes "entries body = (uid, content) # rest"
    and "content = JNull \<or> content = JUndefined"
  shows "projectName content = Inl TypeError
     \<and> upload e body d = (send 500 ''Internal Server Error'', d)"
proof -
  from assms(2) have "projectName content = Inl TypeError"
    by (auto simp: projectName_def get_def)
  with assms(1) show ?thesis
    by (simp add: upload_content_throws)
qed

theorem null_content_internal_error_witness:
  "entries (JObj [(''X'', JNull)]) = (''X'', JNull) # []
   \<and> projectName JNull = Inl TypeError
   \<and> upload env0 (JObj [(''X'', JNull)]) db1 = (send 500 ''Internal Server Error'', db1)"
proof -
  have ent: "entries (JObj [(''X'', JNull)]) = (''X'', JNull) # []"
    by simp
  have null: "JNull = JNull \<or> JNull = JUndefined"
    by simp
  from null_content_internal_error [OF ent null, of env0 db1] ent
  show ?thesis by simp
qed

subsection \<open>C10: a falsy project name\<close>




end
